theory Spec2Isabelle
  imports Main "HOL-Library.Product_Lexorder" "HOL-Library.List_Lexorder" "HOL-Library.Char_ord"
begin

section \<open>Data model (src/types/supabase.ts)\<close>

text \<open>
  The rows of the tables \<open>games\<close>, \<open>cells\<close>, \<open>cards\<close>, \<open>moves\<close> and \<open>profiles\<close>.
  String unions become datatypes, \<open>T | null\<close> becomes \<open>T option\<close>, JavaScript numbers that
  hold coordinates and counters become \<open>int\<close>. Field names carry the table's name where two
  tables share a column name.
\<close>

datatype status = waiting | playing | finished

text \<open>\<open>'A' | 'B'\<close> (card owner, winner, actor) and \<open>'A' | 'B' | 'none'\<close> (turn, cell owner).\<close>

datatype seat = SeatA | SeatB

datatype side = SideA | SideB | SideNone

datatype kind = influence | hero

record game =
  game_id :: string
  status :: status
  season_id :: string
  player_a :: "string option"
  player_b :: "string option"
  turn :: side
  crown_x :: int
  crown_y :: int
  score_a :: "int option"
  score_b :: "int option"
  winner :: "seat option"
  created_at :: string
  updated_at :: "string option"
  finished_at :: "string option"

record cell =
  cell_game_id :: string
  cell_x :: int
  cell_y :: int
  cell_owner :: side

text \<open>A card as the client sends it (\<open>Insert\<close> without \<open>id\<close>), and the stored row.\<close>

record new_card =
  card_game_id :: string
  card_owner :: "seat option"
  card_kind :: kind
  card_dx :: "int option"
  card_dy :: "int option"
  card_steps :: "int option"
  is_used :: bool
  order_in_deck :: "int option"

record card = new_card +
  card_id :: string

record move =
  move_id :: int
  move_game_id :: string
  actor :: seat
  used_card :: "string option"
  from_x :: "int option"
  from_y :: "int option"
  to_x :: int
  to_y :: int
  flipped :: bool
  move_created_at :: string

record profile =
  profile_id :: string
  nickname :: string

section \<open>Errors\<close>

text \<open>
  The store throws plain \<open>Error\<close> objects that differ in their message only, and rethrows
  the error objects the backend client returns. \<open>Error m\<close> is \<open>new Error(m)\<close>; the other
  constructors are the failures of the backend model below.
\<close>

datatype err =
    Error string
  | Unreachable
  | NoSingleRow
  | DuplicateKey
  | FunctionFailed

definition not_logged_in :: err where
  "not_logged_in = Error ''You must be logged in to join a game''"

definition game_full :: err where
  "game_full = Error ''This game is already full''"

definition not_your_turn :: err where
  "not_your_turn = Error ''It's not your turn''"

definition no_game_or_user :: err where
  "no_game_or_user = Error ''No active game or user not authenticated''"

section \<open>The backend (the collaborator behind \<open>supabase\<close>)\<close>

text \<open>
  The tables, and whether the backend can be reached. \<open>games\<close> is keyed by its primary
  key \<open>id\<close>. A request to an unreachable backend returns an error and changes nothing.
\<close>

record db =
  online :: bool
  tbl_games :: "string \<rightharpoonup> game"
  tbl_cells :: "cell list"
  tbl_cards :: "card list"
  tbl_moves :: "move list"
  tbl_profiles :: "profile list"

text \<open>\<open>from('games').insert([row]).select().single()\<close>\<close>

definition insert_game :: "game \<Rightarrow> db \<Rightarrow> (err + game) \<times> db" where
  "insert_game row d =
     (if \<not> online d then (Inl Unreachable, d)
      else if tbl_games d (game_id row) \<noteq> None then (Inl DuplicateKey, d)
      else (Inr row, d\<lparr>tbl_games := (tbl_games d)(game_id row \<mapsto> row)\<rparr>))"

text \<open>\<open>from('games').select('*').eq('id', gameId).single()\<close>\<close>

definition select_game :: "string \<Rightarrow> db \<Rightarrow> err + game" where
  "select_game gid d =
     (if \<not> online d then Inl Unreachable
      else case tbl_games d gid of None \<Rightarrow> Inl NoSingleRow | Some g \<Rightarrow> Inr g)"

text \<open>
  \<open>from('games').update(fields).eq('id', gameId)\<close>: \<open>upd\<close> sets the fields of the update
  object. With \<open>.select().single()\<close> the call fails when no row matches; without it an
  update that matches no row is no error.
\<close>

definition update_game_single :: "(game \<Rightarrow> game) \<Rightarrow> string \<Rightarrow> db \<Rightarrow> (err + game) \<times> db" where
  "update_game_single upd gid d =
     (if \<not> online d then (Inl Unreachable, d)
      else case tbl_games d gid of
             None \<Rightarrow> (Inl NoSingleRow, d)
           | Some g \<Rightarrow> (Inr (upd g), d\<lparr>tbl_games := (tbl_games d)(gid \<mapsto> upd g)\<rparr>))"

definition update_game :: "(game \<Rightarrow> game) \<Rightarrow> string \<Rightarrow> db \<Rightarrow> err option \<times> db" where
  "update_game upd gid d =
     (if \<not> online d then (Some Unreachable, d)
      else case tbl_games d gid of
             None \<Rightarrow> (None, d)
           | Some g \<Rightarrow> (None, d\<lparr>tbl_games := (tbl_games d)(gid \<mapsto> upd g)\<rparr>))"

text \<open>\<open>from('cells').insert(cells)\<close>\<close>

definition insert_cells :: "cell list \<Rightarrow> db \<Rightarrow> err option \<times> db" where
  "insert_cells rows d =
     (if \<not> online d then (Some Unreachable, d)
      else (None, d\<lparr>tbl_cells := tbl_cells d @ rows\<rparr>))"

text \<open>
  \<open>from('cards').insert(allCards).select()\<close>: the backend gives the \<open>i\<close>-th row of the
  batch the identifier \<open>cid i\<close> and returns the stored rows.
\<close>

definition stored_cards :: "(nat \<Rightarrow> string) \<Rightarrow> new_card list \<Rightarrow> card list" where
  "stored_cards cid rows =
     map (\<lambda>(i, r). new_card.extend r (card.fields (cid i))) (enumerate 0 rows)"

definition insert_cards :: "(nat \<Rightarrow> string) \<Rightarrow> new_card list \<Rightarrow> db \<Rightarrow> (err + card list) \<times> db" where
  "insert_cards cid rows d =
     (if \<not> online d then (Inl Unreachable, d)
      else (Inr (stored_cards cid rows), d\<lparr>tbl_cards := tbl_cards d @ stored_cards cid rows\<rparr>))"

text \<open>\<open>from('cells').select('*').eq('game_id', gameId)\<close>\<close>

definition select_cells :: "string \<Rightarrow> db \<Rightarrow> err + cell list" where
  "select_cells gid d =
     (if \<not> online d then Inl Unreachable
      else Inr (filter (\<lambda>c. cell_game_id c = gid) (tbl_cells d)))"

text \<open>
  \<open>from('cards').select('*').eq('game_id', gameId).order('order_in_deck', {ascending: true})\<close>
  and the same for moves by \<open>created_at\<close>. Ascending order puts null last.
\<close>

definition deck_key :: "card \<Rightarrow> nat \<times> int" where
  "deck_key c = (case order_in_deck c of None \<Rightarrow> (1, 0) | Some n \<Rightarrow> (0, n))"

definition select_cards :: "string \<Rightarrow> db \<Rightarrow> err + card list" where
  "select_cards gid d =
     (if \<not> online d then Inl Unreachable
      else Inr (sort_key deck_key (filter (\<lambda>c. card_game_id c = gid) (tbl_cards d))))"

text \<open>\<open>from('moves').select('*').eq('game_id', gameId).order('created_at', {ascending: true})\<close>\<close>

definition select_moves :: "string \<Rightarrow> db \<Rightarrow> err + move list" where
  "select_moves gid d =
     (if \<not> online d then Inl Unreachable
      else Inr (sort_key move_created_at (filter (\<lambda>m. move_game_id m = gid) (tbl_moves d))))"

text \<open>\<open>from('profiles').select('id, nickname').in('id', playerIds)\<close>\<close>

definition select_profiles :: "string list \<Rightarrow> db \<Rightarrow> err + profile list" where
  "select_profiles ids d =
     (if \<not> online d then Inl Unreachable
      else Inr (filter (\<lambda>p. profile_id p \<in> set ids) (tbl_profiles d)))"

text \<open>
  \<open>functions.invoke('play-turn', {body})\<close>. The rules function itself is not part of the
  repository: it is a parameter \<open>pt\<close> of everything that calls it, taking the request body
  and the caller's identity.
\<close>

record invoke_body =
  gameId :: string
  cardId :: string
  toX :: int
  toY :: int

type_synonym 'r play_turn = "invoke_body \<Rightarrow> string option \<Rightarrow> db \<Rightarrow> (err + 'r) \<times> db"

definition invoke_play_turn :: "'r play_turn \<Rightarrow> invoke_body \<Rightarrow> string option \<Rightarrow> db \<Rightarrow> (err + 'r) \<times> db" where
  "invoke_play_turn pt body uid d =
     (if \<not> online d then (Inl Unreachable, d) else pt body uid d)"

section \<open>The game store (src/stores/game.ts)\<close>

text \<open>
  The refs of the store, with \<open>authStore.userId\<close>. \<open>error\<close> keeps the error whose message
  the source stores. \<open>subscription\<close> is the session the open channel is scoped to.
  \<open>submitted\<close> is not in the source: it records, in order, the bodies passed to
  \<open>functions.invoke\<close>, so that theorems can say which proposals were sent. Toasts and
  console output are left out.
\<close>

record gstore =
  userId :: "string option"
  currentGame :: "game option"
  board :: "cell list"
  cards :: "card list"
  moves :: "move list"
  players :: "string \<rightharpoonup> profile"
  isLoading :: bool
  error :: "err option"
  subscription :: "string option"
  submitted :: "invoke_body list"

text \<open>JavaScript truthiness of a \<open>string | null\<close>: null and the empty string are falsy.\<close>

definition truthy :: "string option \<Rightarrow> bool" where
  "truthy v = (case v of None \<Rightarrow> False | Some s \<Rightarrow> s \<noteq> [])"

definition isPlayerA :: "gstore \<Rightarrow> bool" where
  "isPlayerA st =
     (case currentGame st of
        None \<Rightarrow> False
      | Some g \<Rightarrow> if \<not> truthy (userId st) then False else player_a g = userId st)"

definition isPlayerB :: "gstore \<Rightarrow> bool" where
  "isPlayerB st =
     (case currentGame st of
        None \<Rightarrow> False
      | Some g \<Rightarrow> if \<not> truthy (userId st) then False else player_b g = userId st)"

definition currentPlayer :: "gstore \<Rightarrow> side option" where
  "currentPlayer st = map_option turn (currentGame st)"

definition isPlayerTurn :: "gstore \<Rightarrow> bool" where
  "isPlayerTurn st =
     (case currentGame st of
        None \<Rightarrow> False
      | Some g \<Rightarrow>
          if \<not> truthy (userId st) then False
          else (isPlayerA st \<and> turn g = SideA) \<or> (isPlayerB st \<and> turn g = SideB))"

text \<open>\<open>currentGame.value?.status || 'waiting'\<close>\<close>

definition gameStatus :: "gstore \<Rightarrow> status" where
  "gameStatus st = (case currentGame st of None \<Rightarrow> waiting | Some g \<Rightarrow> status g)"

definition getCell :: "gstore \<Rightarrow> int \<Rightarrow> int \<Rightarrow> cell option" where
  "getCell st x y = find (\<lambda>c. cell_x c = x \<and> cell_y c = y) (board st)"

definition getPlayerCards :: "gstore \<Rightarrow> seat \<Rightarrow> card list" where
  "getPlayerCards st player =
     filter (\<lambda>c. card_owner c = Some player \<and> \<not> is_used c) (cards st)"

subsection \<open>try / catch / finally\<close>

text \<open>
  Every action returns its outcome together with the store and the backend as it leaves
  them, also when it throws. \<open>catch_error\<close> is the \<open>catch\<close> block shared by the actions
  (record the error, rethrow); \<open>catch_finally\<close> adds \<open>finally { isLoading = false }\<close>.
\<close>

definition catch_error :: "(err + 'a) \<times> gstore \<times> db \<Rightarrow> (err + 'a) \<times> gstore \<times> db" where
  "catch_error r =
     (case r of
        (Inl e, st, d) \<Rightarrow> (Inl e, st\<lparr>error := Some e\<rparr>, d)
      | (Inr a, st, d) \<Rightarrow> (Inr a, st, d))"

definition catch_finally :: "(err + 'a) \<times> gstore \<times> db \<Rightarrow> (err + 'a) \<times> gstore \<times> db" where
  "catch_finally r =
     (case catch_error r of (res, st, d) \<Rightarrow> (res, st\<lparr>isLoading := False\<rparr>, d))"

subsection \<open>Helper methods\<close>

text \<open>\<open>cells.find(p)\<close> followed by an assignment to the found object.\<close>

fun update_first :: "('a \<Rightarrow> bool) \<Rightarrow> ('a \<Rightarrow> 'a) \<Rightarrow> 'a list \<Rightarrow> 'a list" where
  "update_first p f [] = []"
| "update_first p f (c # cs) = (if p c then f c # cs else c # update_first p f cs)"

definition grid_cells :: "string \<Rightarrow> cell list" where
  "grid_cells gid =
     concat (map (\<lambda>y. map (\<lambda>x.
       \<lparr>cell_game_id = gid, cell_x = x, cell_y = y, cell_owner = SideNone\<rparr>) [0..8]) [0..8])"

definition initial_cells :: "string \<Rightarrow> cell list" where
  "initial_cells gid =
     update_first (\<lambda>c. cell_x c = 4 \<and> cell_y c = 4) (\<lambda>c. c\<lparr>cell_owner := SideA\<rparr>)
       (grid_cells gid)"

definition initializeBoard :: "string \<Rightarrow> gstore \<times> db \<Rightarrow> (err + unit) \<times> gstore \<times> db" where
  "initializeBoard gid w =
     (case w of (st, d) \<Rightarrow>
        (case insert_cells (initial_cells gid) d of
           (Some e, d') \<Rightarrow> (Inl e, st, d')
         | (None, d') \<Rightarrow> (Inr (), st\<lparr>board := initial_cells gid\<rparr>, d')))"

definition cardsToCreate :: "(kind \<times> int \<times> int \<times> int) list" where
  "cardsToCreate =
     [(influence, 1, 0, 1), (influence, -1, 0, 1), (influence, 0, 1, 1), (influence, 0, -1, 1),
      (hero, 2, 0, 1), (hero, -2, 0, 1), (hero, 0, 2, 1), (hero, 0, -2, 1),
      (hero, 1, 1, 1), (hero, -1, -1, 1)]"

definition deck_of :: "string \<Rightarrow> seat \<Rightarrow> new_card list" where
  "deck_of gid player =
     map (\<lambda>(index, (k, dx, dy, n)).
            \<lparr>card_game_id = gid, card_owner = Some player, card_kind = k,
             card_dx = Some dx, card_dy = Some dy, card_steps = Some n,
             is_used = False, order_in_deck = Some (int index)\<rparr>)
         (enumerate 0 cardsToCreate)"

definition allCards :: "string \<Rightarrow> new_card list" where
  "allCards gid = deck_of gid SeatA @ deck_of gid SeatB"

definition initializeCards ::
  "(nat \<Rightarrow> string) \<Rightarrow> string \<Rightarrow> gstore \<times> db \<Rightarrow> (err + unit) \<times> gstore \<times> db" where
  "initializeCards cid gid w =
     (case w of (st, d) \<Rightarrow>
        (case insert_cards cid (allCards gid) d of
           (Inl e, d') \<Rightarrow> (Inl e, st, d')
         | (Inr data, d') \<Rightarrow> (Inr (), st\<lparr>cards := data\<rparr>, d')))"

definition fetchBoard :: "string \<Rightarrow> gstore \<times> db \<Rightarrow> (err + unit) \<times> gstore \<times> db" where
  "fetchBoard gid w =
     (case w of (st, d) \<Rightarrow>
        (case select_cells gid d of
           Inl e \<Rightarrow> (Inl e, st, d)
         | Inr data \<Rightarrow> (Inr (), st\<lparr>board := data\<rparr>, d)))"

definition fetchCards :: "string \<Rightarrow> gstore \<times> db \<Rightarrow> (err + unit) \<times> gstore \<times> db" where
  "fetchCards gid w =
     (case w of (st, d) \<Rightarrow>
        (case select_cards gid d of
           Inl e \<Rightarrow> (Inl e, st, d)
         | Inr data \<Rightarrow> (Inr (), st\<lparr>cards := data\<rparr>, d)))"

definition fetchMoves :: "string \<Rightarrow> gstore \<times> db \<Rightarrow> (err + unit) \<times> gstore \<times> db" where
  "fetchMoves gid w =
     (case w of (st, d) \<Rightarrow>
        (case select_moves gid d of
           Inl e \<Rightarrow> (Inl e, st, d)
         | Inr data \<Rightarrow> (Inr (), st\<lparr>moves := data\<rparr>, d)))"

text \<open>\<open>[player_a, player_b].filter(Boolean)\<close> and the map built by \<open>forEach\<close>.\<close>

definition playerIds :: "game \<Rightarrow> string list" where
  "playerIds g = map the (filter truthy [player_a g, player_b g])"

definition playerMap :: "profile list \<Rightarrow> (string \<rightharpoonup> profile)" where
  "playerMap ps = fold (\<lambda>p m. m(profile_id p \<mapsto> p)) ps Map.empty"

definition fetchPlayers :: "string \<Rightarrow> gstore \<times> db \<Rightarrow> (err + unit) \<times> gstore \<times> db" where
  "fetchPlayers gid w =
     (case w of (st, d) \<Rightarrow>
        (case currentGame st of
           None \<Rightarrow> (Inr (), st, d)
         | Some g \<Rightarrow>
             (case select_profiles (playerIds g) d of
                Inl e \<Rightarrow> (Inl e, st, d)
              | Inr data \<Rightarrow> (Inr (), st\<lparr>players := playerMap data\<rparr>, d))))"

text \<open>
  \<open>subscribeToGame\<close> removes the channel held, if any, and opens the one of \<open>gameId\<close>;
  the handlers it installs are \<open>on_change\<close> below.
\<close>

definition subscribeToGame :: "string \<Rightarrow> gstore \<Rightarrow> gstore" where
  "subscribeToGame gid st = st\<lparr>subscription := Some gid\<rparr>"

text \<open>Sequencing of awaited calls: the first one that throws ends the sequence.\<close>

definition and_then ::
  "(err + 'a) \<times> gstore \<times> db \<Rightarrow> (gstore \<times> db \<Rightarrow> (err + 'b) \<times> gstore \<times> db)
     \<Rightarrow> (err + 'b) \<times> gstore \<times> db" where
  "and_then r k =
     (case r of
        (Inl e, w) \<Rightarrow> (Inl e, w)
      | (Inr a, w) \<Rightarrow> k w)"

subsection \<open>Actions\<close>

text \<open>
  \<open>createGame\<close>. The client sends five columns; \<open>dflt\<close> is the row of everything the
  backend fills in (the generated \<open>id\<close>, the season, scores, winner and timestamps).
  \<open>authStore.userId\<close> is sent as it is.
\<close>

definition new_game_row :: "game \<Rightarrow> string option \<Rightarrow> game" where
  "new_game_row dflt uid =
     dflt\<lparr>player_a := uid, status := waiting, turn := SideA, crown_x := 4, crown_y := 4\<rparr>"

definition createGame_try ::
  "game \<Rightarrow> (nat \<Rightarrow> string) \<Rightarrow> gstore \<times> db \<Rightarrow> (err + game) \<times> gstore \<times> db" where
  "createGame_try dflt cid w =
     (case w of (st, d) \<Rightarrow>
        let st1 = st\<lparr>isLoading := True, error := None\<rparr> in
        (case insert_game (new_game_row dflt (userId st1)) d of
           (Inl createError, d') \<Rightarrow> (Inl createError, st1, d')
         | (Inr data, d') \<Rightarrow>
             and_then
               (and_then (initializeBoard (game_id data) (st1\<lparr>currentGame := Some data\<rparr>, d'))
                  (initializeCards cid (game_id data)))
               (\<lambda>(st2, d2). (Inr data, subscribeToGame (game_id data) st2, d2))))"

definition createGame ::
  "game \<Rightarrow> (nat \<Rightarrow> string) \<Rightarrow> gstore \<times> db \<Rightarrow> (err + game) \<times> gstore \<times> db" where
  "createGame dflt cid w = catch_finally (createGame_try dflt cid w)"

text \<open>
  \<open>joinGame\<close> awaits the backend twice before it touches the session: once to read the
  row and once to write it. \<open>joinGame_read\<close> is the code up to the first answer and the
  check on it, \<open>joinGame_write\<close> the rest of the \<open>try\<close> block. The four fetches of
  \<open>Promise.all\<close> are run in the order they are listed; on a backend that has just
  answered the update none of them fails. \<open>now\<close> is the clock reading.
\<close>

definition joinGame_read :: "string \<Rightarrow> gstore \<times> db \<Rightarrow> (err + game) \<times> gstore \<times> db" where
  "joinGame_read gid w =
     (case w of (st, d) \<Rightarrow>
        if \<not> truthy (userId st) then (Inl not_logged_in, st, d)
        else
          let st1 = st\<lparr>isLoading := True, error := None\<rparr> in
          (case select_game gid d of
             Inl fetchError \<Rightarrow> (Inl fetchError, st1, d)
           | Inr g \<Rightarrow>
               if truthy (player_a g) \<and> truthy (player_b g) then (Inl game_full, st1, d)
               else (Inr g, st1, d)))"

definition join_update :: "string option \<Rightarrow> string \<Rightarrow> game \<Rightarrow> game" where
  "join_update uid now g = g\<lparr>player_b := uid, status := playing, updated_at := Some now\<rparr>"

definition joinGame_write ::
  "string \<Rightarrow> string \<Rightarrow> gstore \<times> db \<Rightarrow> (err + game) \<times> gstore \<times> db" where
  "joinGame_write now gid w =
     (case w of (st, d) \<Rightarrow>
        (case update_game_single (join_update (userId st) now) gid d of
           (Inl updateError, d') \<Rightarrow> (Inl updateError, st, d')
         | (Inr updatedGame, d') \<Rightarrow>
             and_then
               (and_then
                  (and_then
                     (and_then (fetchBoard gid (st\<lparr>currentGame := Some updatedGame\<rparr>, d'))
                        (fetchCards gid))
                     (fetchMoves gid))
                  (fetchPlayers gid))
               (\<lambda>(st2, d2). (Inr updatedGame, subscribeToGame gid st2, d2))))"

definition joinGame :: "string \<Rightarrow> string \<Rightarrow> gstore \<times> db \<Rightarrow> (err + game) \<times> gstore \<times> db" where
  "joinGame now gid w = catch_finally (and_then (joinGame_read gid w) (joinGame_write now gid))"

text \<open>
  Two clients that call \<open>joinGame\<close> for the same session, scheduled so that the backend
  answers both reads before either write arrives. Each client runs its own \<open>joinGame\<close>
  on its own store; the backend is shared.
\<close>

definition joinGame_race ::
  "string \<Rightarrow> string \<Rightarrow> string \<Rightarrow> gstore \<Rightarrow> gstore \<Rightarrow> db
     \<Rightarrow> (err + game) \<times> (err + game) \<times> gstore \<times> gstore \<times> db" where
  "joinGame_race now1 now2 gid s1 s2 d =
     (case joinGame_read gid (s1, d) of (r1, s1', _) \<Rightarrow>
      case joinGame_read gid (s2, d) of (r2, s2', _) \<Rightarrow>
      case catch_finally (and_then (r1, s1', d) (joinGame_write now1 gid)) of (o1, s1'', d1) \<Rightarrow>
      case catch_finally (and_then (r2, s2', d1) (joinGame_write now2 gid)) of (o2, s2'', d2) \<Rightarrow>
        (o1, o2, s1'', s2'', d2))"

text \<open>\<open>makeMove\<close>\<close>

definition makeMove ::
  "'r play_turn \<Rightarrow> string \<Rightarrow> int \<Rightarrow> int \<Rightarrow> gstore \<times> db \<Rightarrow> (err + 'r) \<times> gstore \<times> db" where
  "makeMove pt cid x y w =
     catch_finally
       (case w of (st, d) \<Rightarrow>
          (case currentGame st of
             None \<Rightarrow> (Inl not_your_turn, st, d)
           | Some g \<Rightarrow>
               if \<not> isPlayerTurn st then (Inl not_your_turn, st, d)
               else
                 let body = \<lparr>gameId = game_id g, cardId = cid, toX = x, toY = y\<rparr>;
                     st1 = st\<lparr>isLoading := True, error := None,
                              submitted := submitted st @ [body]\<rparr>
                 in (case invoke_play_turn pt body (userId st) d of
                       (Inl moveError, d') \<Rightarrow> (Inl moveError, st1, d')
                     | (Inr data, d') \<Rightarrow> (Inr data, st1, d'))))"

text \<open>
  \<open>forfeitGame\<close>. \<open>now1\<close> and \<open>now2\<close> are the two clock readings of the update object.
  The cached session is left as it is: the subscription brings the new row.
\<close>

definition forfeit_update :: "seat \<Rightarrow> string \<Rightarrow> string \<Rightarrow> game \<Rightarrow> game" where
  "forfeit_update won now1 now2 g =
     g\<lparr>status := finished, winner := Some won, finished_at := Some now1, updated_at := Some now2\<rparr>"

definition forfeitGame :: "string \<Rightarrow> string \<Rightarrow> gstore \<times> db \<Rightarrow> (err + unit) \<times> gstore \<times> db" where
  "forfeitGame now1 now2 w =
     catch_error
       (case w of (st, d) \<Rightarrow>
          (case currentGame st of
             None \<Rightarrow> (Inl no_game_or_user, st, d)
           | Some g \<Rightarrow>
               if \<not> truthy (userId st) then (Inl no_game_or_user, st, d)
               else
                 let won = (if isPlayerA st then SeatB else SeatA) in
                 (case update_game (forfeit_update won now1 now2) (game_id g) d of
                    (Some updateError, d') \<Rightarrow> (Inl updateError, st, d')
                  | (None, d') \<Rightarrow> (Inr (), st, d'))))"

subsection \<open>Realtime change events\<close>

text \<open>
  The four handlers \<open>subscribeToGame gameId\<close> installs. A payload carries the kind of
  change and the new row (on a delete the feed sends an empty object there, which no
  handler reads). A fetch that fails inside a handler rejects a promise nobody awaits:
  the store stays as it was.
\<close>

datatype eventType = INSERT | UPDATE | DELETE

record 'r payload =
  eventType :: eventType
  new :: 'r

datatype change =
    GamesChange "game payload"
  | CellsChange "cell payload"
  | CardsChange "card payload"
  | MovesInsert "move payload"

fun on_change :: "string \<Rightarrow> change \<Rightarrow> gstore \<times> db \<Rightarrow> gstore \<times> db" where
  "on_change gid (GamesChange p) (st, d) =
     (if eventType p = UPDATE \<or> eventType p = INSERT then st\<lparr>currentGame := Some (new p)\<rparr>
      else st, d)"
| "on_change gid (CellsChange p) w = snd (fetchBoard gid w)"
| "on_change gid (CardsChange p) w = snd (fetchCards gid w)"
| "on_change gid (MovesInsert p) w = snd (fetchMoves gid w)"

section \<open>The board component (src/components/game/GameBoard.vue) and its page\<close>

text \<open>
  The refs of the component, the \<open>interactive\<close> prop as the parent last passed it, and
  \<open>emitted\<close>, the events given to \<open>emit\<close> in order. The page (src/pages/GamePage.vue)
  keeps its own selected card. A client is a store, a board and a page; the backend is
  shared. Rendering, scrolling and toasts are left out.
\<close>

datatype emit_event =
    CellClick int int
  | CellHover int int
  | CellLeave
  | MoveMade "(int \<times> int) option" "int \<times> int"

record board_ui =
  interactive :: bool
  isDragging :: bool
  dragStartCell :: "(int \<times> int) option"
  dragEndCell :: "(int \<times> int) option"
  hoveredCell :: "(int \<times> int) option"
  validMoves :: "(int \<times> int) list"
  selectedCard :: "string option"
  emitted :: "emit_event list"

record page_state =
  selectedCardId :: "string option"

record client =
  store :: gstore
  ui :: board_ui
  page :: page_state

definition isInteractive :: "client \<Rightarrow> bool" where
  "isInteractive c = (interactive (ui c) \<and> isPlayerTurn (store c))"

definition emit :: "emit_event \<Rightarrow> client \<Rightarrow> client" where
  "emit e c = c\<lparr>ui := (ui c)\<lparr>emitted := emitted (ui c) @ [e]\<rparr>\<rparr>"

definition resetDragState :: "board_ui \<Rightarrow> board_ui" where
  "resetDragState u =
     u\<lparr>isDragging := False, dragStartCell := None, dragEndCell := None, validMoves := []\<rparr>"

definition directions :: "(int \<times> int) list" where
  "directions = [(-1, -1), (0, -1), (1, -1), (-1, 0), (1, 0), (-1, 1), (0, 1), (1, 1)]"

definition updateValidMoves :: "int \<Rightarrow> int \<Rightarrow> client \<Rightarrow> client" where
  "updateValidMoves fromX fromY c =
     (case currentGame (store c) of
        None \<Rightarrow> c
      | Some _ \<Rightarrow>
          c\<lparr>ui := (ui c)\<lparr>validMoves :=
            filter (\<lambda>(x, y).
                x \<ge> 0 \<and> x < 9 \<and> y \<ge> 0 \<and> y < 9 \<and>
                (case getCell (store c) x y of
                   None \<Rightarrow> True
                 | Some cell \<Rightarrow>
                     cell_owner cell = SideNone \<or> Some (cell_owner cell) \<noteq> currentPlayer (store c)))
              (map (\<lambda>(dx, dy). (fromX + dx, fromY + dy)) directions)\<rparr>\<rparr>)"

text \<open>
  \<open>playCard\<close> and the page's listener of \<open>cell-click\<close> await \<open>makeMove\<close>; the model runs
  them to their end at once. What they write (the store's loading flag and error, the
  selected card) is not read by the code that runs meanwhile.
\<close>

definition playCard :: "'r play_turn \<Rightarrow> string \<Rightarrow> int \<Rightarrow> int \<Rightarrow> client \<times> db \<Rightarrow> client \<times> db" where
  "playCard pt cid x y w =
     (case w of (c, d) \<Rightarrow>
        (case currentGame (store c) of
           None \<Rightarrow> (c, d)
         | Some _ \<Rightarrow>
             (case makeMove pt cid x y (store c, d) of
                (Inr _, st', d') \<Rightarrow> (c\<lparr>store := st', ui := (ui c)\<lparr>selectedCard := None\<rparr>\<rparr>, d')
              | (Inl _, st', d') \<Rightarrow> (c\<lparr>store := st'\<rparr>, d'))))"

definition GamePage_handleCellClick ::
  "'r play_turn \<Rightarrow> int \<times> int \<Rightarrow> client \<times> db \<Rightarrow> client \<times> db" where
  "GamePage_handleCellClick pt coords w =
     (case w of (c, d) \<Rightarrow>
        (case selectedCardId (page c) of
           None \<Rightarrow> (c, d)
         | Some cid \<Rightarrow>
             if \<not> isPlayerTurn (store c) \<or> cid = [] then (c, d)
             else
               (case makeMove pt cid (fst coords) (snd coords) (store c, d) of
                  (Inr _, st', d') \<Rightarrow>
                    (c\<lparr>store := st', page := (page c)\<lparr>selectedCardId := None\<rparr>\<rparr>, d')
                | (Inl _, st', d') \<Rightarrow> (c\<lparr>store := st'\<rparr>, d'))))"

text \<open>
  \<open>handleCellClick\<close> of the board; \<open>onCellClick\<close> is the parent's listener of
  \<open>cell-click\<close>. \<open>handleCellClick_emit\<close> is the part after the selected-card test.
\<close>

definition handleCellClick_emit ::
  "(int \<times> int \<Rightarrow> client \<times> db \<Rightarrow> client \<times> db) \<Rightarrow> int \<Rightarrow> int \<Rightarrow> client \<times> db \<Rightarrow> client \<times> db" where
  "handleCellClick_emit onCellClick x y w =
     (case w of (c, d) \<Rightarrow>
        (case onCellClick (x, y) (emit (CellClick x y) c, d) of (c1, d1) \<Rightarrow>
           if (x, y) \<in> set (validMoves (ui c1))
           then
             (let c2 = emit (MoveMade (dragStartCell (ui c1)) (x, y)) c1
              in (c2\<lparr>ui := resetDragState (ui c2)\<rparr>, d1))
           else (updateValidMoves x y (c1\<lparr>ui := (ui c1)\<lparr>dragStartCell := Some (x, y)\<rparr>\<rparr>), d1)))"

definition handleCellClick ::
  "(int \<times> int \<Rightarrow> client \<times> db \<Rightarrow> client \<times> db) \<Rightarrow> 'r play_turn \<Rightarrow> int \<Rightarrow> int
     \<Rightarrow> client \<times> db \<Rightarrow> client \<times> db" where
  "handleCellClick onCellClick pt x y w =
     (case w of (c, d) \<Rightarrow>
        if \<not> isInteractive c then (c, d)
        else
          (case selectedCard (ui c) of
             None \<Rightarrow> handleCellClick_emit onCellClick x y (c, d)
           | Some cid \<Rightarrow>
               if cid = [] then handleCellClick_emit onCellClick x y (c, d)
               else playCard pt cid x y (c, d)))"

definition handleCellHover :: "int \<Rightarrow> int \<Rightarrow> client \<Rightarrow> client" where
  "handleCellHover x y c =
     (let c1 = emit (CellHover x y) (c\<lparr>ui := (ui c)\<lparr>hoveredCell := Some (x, y)\<rparr>\<rparr>)
      in if isDragging (ui c1) \<and> dragStartCell (ui c1) \<noteq> None
         then c1\<lparr>ui := (ui c1)\<lparr>dragEndCell := Some (x, y)\<rparr>\<rparr>
         else c1)"

definition handleCellLeave :: "client \<Rightarrow> client" where
  "handleCellLeave c = emit CellLeave (c\<lparr>ui := (ui c)\<lparr>hoveredCell := None\<rparr>\<rparr>)"

definition handleMouseDown :: "int \<Rightarrow> int \<Rightarrow> client \<Rightarrow> client" where
  "handleMouseDown x y c =
     (if \<not> isInteractive c then c
      else updateValidMoves x y
             (c\<lparr>ui := (ui c)\<lparr>isDragging := True, dragStartCell := Some (x, y),
                             dragEndCell := None\<rparr>\<rparr>))"

definition handleMouseUp :: "int \<Rightarrow> int \<Rightarrow> client \<Rightarrow> client" where
  "handleMouseUp x y c =
     (if \<not> isDragging (ui c) then c
      else
        let c1 = c\<lparr>ui := (ui c)\<lparr>isDragging := False\<rparr>\<rparr>;
            c2 = (case dragStartCell (ui c1) of
                    None \<Rightarrow> c1
                  | Some (fromX, fromY) \<Rightarrow>
                      if (fromX \<noteq> x \<or> fromY \<noteq> y) \<and> (x, y) \<in> set (validMoves (ui c1))
                      then emit (MoveMade (dragStartCell (ui c1)) (x, y)) c1
                      else c1)
        in c2\<lparr>ui := resetDragState (ui c2)\<rparr>)"

definition selectCard :: "string \<Rightarrow> board_ui \<Rightarrow> board_ui" where
  "selectCard cid u =
     u\<lparr>selectedCard := (if selectedCard u = Some cid then None else Some cid),
       validMoves := []\<rparr>"

text \<open>The \<open>keydown\<close> listener. \<open>e.key\<close> is one of the six names the handler tests, or another.\<close>

datatype key = ArrowUp | ArrowDown | ArrowLeft | ArrowRight | Enter | Escape | OtherKey

definition is_arrow :: "key \<Rightarrow> bool" where
  "is_arrow k = (k = ArrowUp \<or> k = ArrowDown \<or> k = ArrowLeft \<or> k = ArrowRight)"

text \<open>The \<open>switch\<close> on the arrow key, from the hovered cell \<open>(x, y)\<close>.\<close>

fun arrow_step :: "key \<Rightarrow> int \<times> int \<Rightarrow> int \<times> int" where
  "arrow_step ArrowUp (x, y) = (if y > 0 then (x, y - 1) else (x, y))"
| "arrow_step ArrowDown (x, y) = (if y < 8 then (x, y + 1) else (x, y))"
| "arrow_step ArrowLeft (x, y) = (if x > 0 then (x - 1, y) else (x, y))"
| "arrow_step ArrowRight (x, y) = (if x < 8 then (x + 1, y) else (x, y))"
| "arrow_step _ (x, y) = (x, y)"

definition handleKeyDown ::
  "(int \<times> int \<Rightarrow> client \<times> db \<Rightarrow> client \<times> db) \<Rightarrow> 'r play_turn \<Rightarrow> key
     \<Rightarrow> client \<times> db \<Rightarrow> client \<times> db" where
  "handleKeyDown onCellClick pt k w =
     (case w of (c, d) \<Rightarrow>
        if \<not> isInteractive c then (c, d)
        else
          let c1 = (if is_arrow k
                    then c\<lparr>ui := (ui c)\<lparr>hoveredCell :=
                           (case hoveredCell (ui c) of
                              None \<Rightarrow> Some (4, 4)
                            | Some h \<Rightarrow> Some (arrow_step k h))\<rparr>\<rparr>
                    else c);
              w2 = (case hoveredCell (ui c1) of
                      None \<Rightarrow> (c1, d)
                    | Some (x, y) \<Rightarrow>
                        if k = Enter then handleCellClick onCellClick pt x y (c1, d)
                        else (c1, d))
          in if k = Escape
             then ((fst w2)\<lparr>ui := (resetDragState (ui (fst w2)))\<lparr>selectedCard := None\<rparr>\<rparr>, snd w2)
             else w2)"

text \<open>The watcher of \<open>gameStore.currentGame\<close>, run when the cached session has changed.\<close>

definition watch_currentGame :: "client \<Rightarrow> client" where
  "watch_currentGame c =
     (case currentGame (store c) of
        None \<Rightarrow> c
      | Some _ \<Rightarrow> c\<lparr>ui := (resetDragState (ui c))\<lparr>selectedCard := None\<rparr>\<rparr>)"

text \<open>
  The board as the page mounts it: \<open>@cell-click="handleCellClick"\<close>, and a run of key
  presses, each handled before the next.
\<close>

definition board_click :: "'r play_turn \<Rightarrow> int \<Rightarrow> int \<Rightarrow> client \<times> db \<Rightarrow> client \<times> db" where
  "board_click pt x y w = handleCellClick (GamePage_handleCellClick pt) pt x y w"

definition board_key :: "'r play_turn \<Rightarrow> key \<Rightarrow> client \<times> db \<Rightarrow> client \<times> db" where
  "board_key pt k w = handleKeyDown (GamePage_handleCellClick pt) pt k w"

fun press_keys :: "'r play_turn \<Rightarrow> key list \<Rightarrow> client \<times> db \<Rightarrow> client \<times> db" where
  "press_keys pt [] w = w"
| "press_keys pt (k # ks) w = press_keys pt ks (board_key pt k w)"

text \<open>The cursor of keyboard navigation is \<open>hoveredCell\<close>; it is absent or a cell of the grid.\<close>

definition in_grid :: "(int \<times> int) option \<Rightarrow> bool" where
  "in_grid h = (case h of None \<Rightarrow> True | Some (x, y) \<Rightarrow> 0 \<le> x \<and> x \<le> 8 \<and> 0 \<le> y \<and> y \<le> 8)"

text \<open>
  The card a click plays: the board's own selection when it has one, the page's otherwise.
\<close>

definition hand_card :: "client \<Rightarrow> string option" where
  "hand_card c =
     (if truthy (selectedCard (ui c)) then selectedCard (ui c) else selectedCardId (page c))"

text \<open>
  The page's \<open>selectCard\<close>, and the value it binds to the board's prop,
  \<open>isPlayer && gameStore.isPlayerTurn && !!selectedCardId\<close>; \<open>pass_props\<close> is a render
  of the page, which hands that value to the board.
\<close>

definition GamePage_selectCard :: "string \<Rightarrow> page_state \<Rightarrow> page_state" where
  "GamePage_selectCard cid pg =
     pg\<lparr>selectedCardId := (if selectedCardId pg = Some cid then None else Some cid)\<rparr>"

definition isPlayer :: "gstore \<Rightarrow> bool" where
  "isPlayer st = (isPlayerA st \<or> isPlayerB st)"

definition page_interactive :: "client \<Rightarrow> bool" where
  "page_interactive c =
     (isPlayer (store c) \<and> isPlayerTurn (store c) \<and> truthy (selectedCardId (page c)))"

definition pass_props :: "client \<Rightarrow> client" where
  "pass_props c = c\<lparr>ui := (ui c)\<lparr>interactive := page_interactive c\<rparr>\<rparr>"

text \<open>
  Forfeiting from the page. The Forfeit button is disabled unless the viewer is a player
  and the cached session is \<open>playing\<close> (\<open>:disabled="!isPlayer || gameStore.gameStatus !==
  'playing'"\<close>); leaving forfeits under the same test. \<open>handleForfeit\<close> calls the store's
  action and shows its error, which the store has recorded already. \<open>press_forfeit\<close> is
  a press of the button, confirmed.
\<close>

definition forfeit_enabled :: "gstore \<Rightarrow> bool" where
  "forfeit_enabled st = (isPlayer st \<and> gameStatus st = playing)"

definition GamePage_handleForfeit :: "string \<Rightarrow> string \<Rightarrow> gstore \<times> db \<Rightarrow> gstore \<times> db" where
  "GamePage_handleForfeit now1 now2 w = snd (forfeitGame now1 now2 w)"

definition press_forfeit :: "string \<Rightarrow> string \<Rightarrow> gstore \<times> db \<Rightarrow> gstore \<times> db" where
  "press_forfeit now1 now2 w =
     (if forfeit_enabled (fst w) then GamePage_handleForfeit now1 now2 w else w)"

section \<open>Notions used to state the properties, and sample data\<close>

text \<open>What a card is, apart from its identifier, its owner and its session.\<close>

definition card_face :: "card \<Rightarrow> kind \<times> int option \<times> int option \<times> int option \<times> int option" where
  "card_face c = (card_kind c, card_dx c, card_dy c, card_steps c, order_in_deck c)"

text \<open>
  A backend with no rows, the columns it fills in for the session \<open>g1\<close>, the identifiers it
  gives to cards, a store that has loaded nothing, and a rules function that accepts
  every proposal and changes nothing.
\<close>

definition empty_db :: db where
  "empty_db = \<lparr>online = True, tbl_games = Map.empty, tbl_cells = [], tbl_cards = [],
               tbl_moves = [], tbl_profiles = []\<rparr>"

definition demo_row :: game where
  "demo_row = \<lparr>game_id = ''g1'', status = waiting, season_id = ''S1'', player_a = None,
               player_b = None, turn = SideNone, crown_x = 0, crown_y = 0, score_a = None,
               score_b = None, winner = None, created_at = ''t0'', updated_at = None,
               finished_at = None\<rparr>"

definition demo_cid :: "nat \<Rightarrow> string" where
  "demo_cid i = replicate (Suc i) CHR ''c''"

definition blank_store :: "string option \<Rightarrow> gstore" where
  "blank_store uid = \<lparr>userId = uid, currentGame = None, board = [], cards = [], moves = [],
                      players = Map.empty, isLoading = False, error = None,
                      subscription = None, submitted = []\<rparr>"

definition accept_turn :: "unit play_turn" where
  "accept_turn body uid d = (Inr (), d)"

text \<open>
  The session \<open>g1\<close> as alice created it, and as it is once bob has joined; the backend
  holding the one or the other; the store of a player who has the second one loaded.
\<close>

definition waiting_game :: game where
  "waiting_game = new_game_row demo_row (Some ''alice'')"

definition playing_game :: game where
  "playing_game = join_update (Some ''bob'') ''t1'' waiting_game"

definition waiting_db :: db where
  "waiting_db = empty_db\<lparr>tbl_games := [''g1'' \<mapsto> waiting_game]\<rparr>"

definition playing_db :: db where
  "playing_db = empty_db\<lparr>tbl_games := [''g1'' \<mapsto> playing_game]\<rparr>"

definition seated_store :: "string \<Rightarrow> gstore" where
  "seated_store uid = (blank_store (Some uid))\<lparr>currentGame := Some playing_game,
                                              subscription := Some ''g1''\<rparr>"

text \<open>
  Bob and carol join \<open>g1\<close> at the same time. Alice forfeits \<open>g1\<close>; her store then
  receives the change event of the finished row, and after that the store's action is
  called for her once more. Or else bob, whose store has not received the event yet,
  presses Forfeit on his page. A delete event for the session row.
\<close>

definition race_outcome :: "(err + game) \<times> (err + game) \<times> gstore \<times> gstore \<times> db" where
  "race_outcome =
     joinGame_race ''t1'' ''t2'' ''g1'' (blank_store (Some ''bob'')) (blank_store (Some ''carol''))
       waiting_db"

definition forfeit_once :: "(err + unit) \<times> gstore \<times> db" where
  "forfeit_once = forfeitGame ''t2'' ''t2'' (seated_store ''alice'', playing_db)"

definition forfeit_seen :: "gstore \<times> db" where
  "forfeit_seen =
     on_change ''g1''
       (GamesChange \<lparr>eventType = UPDATE, new = forfeit_update SeatB ''t2'' ''t2'' playing_game\<rparr>)
       (snd forfeit_once)"

definition forfeit_again :: "(err + unit) \<times> gstore \<times> db" where
  "forfeit_again = forfeitGame ''t3'' ''t3'' forfeit_seen"

definition forfeit_other :: "gstore \<times> db" where
  "forfeit_other = press_forfeit ''t3'' ''t3'' (seated_store ''bob'', snd (snd forfeit_once))"

definition deleted_event :: change where
  "deleted_event = GamesChange \<lparr>eventType = DELETE, new = waiting_game\<rparr>"

text \<open>
  Alice's client with \<open>g1\<close> loaded, on her turn, the board idle. She selects the card
  \<open>c1\<close> on the page, which makes the board interactive. She then presses the mouse
  button on cell \<open>(1,1)\<close>, and selects \<open>c1\<close> again, which deselects it.
\<close>

definition idle_board :: board_ui where
  "idle_board = \<lparr>interactive = False, isDragging = False, dragStartCell = None,
                 dragEndCell = None, hoveredCell = None, validMoves = [], selectedCard = None,
                 emitted = []\<rparr>"

definition alice_client :: client where
  "alice_client = \<lparr>store = seated_store ''alice'', ui = idle_board,
                   page = \<lparr>selectedCardId = None\<rparr>\<rparr>"

definition card_client :: client where
  "card_client =
     pass_props (alice_client\<lparr>page := GamePage_selectCard ''c1'' (page alice_client)\<rparr>)"

definition dragging_client :: client where
  "dragging_client = handleMouseDown 1 1 card_client"

definition disabled_client :: client where
  "disabled_client =
     pass_props (dragging_client\<lparr>page := GamePage_selectCard ''c1'' (page dragging_client)\<rparr>)"

section \<open>Creating a session\<close>

lemma createGame_ok:
  assumes "online d" and "tbl_games d (game_id dflt) = None"
  shows "createGame dflt cid (st, d) =
    (Inr (new_game_row dflt (userId st)),
     st\<lparr>isLoading := False, error := None, currentGame := Some (new_game_row dflt (userId st)),
        board := initial_cells (game_id dflt),
        cards := stored_cards cid (allCards (game_id dflt)),
        subscription := Some (game_id dflt)\<rparr>,
     d\<lparr>tbl_games := (tbl_games d)(game_id dflt \<mapsto> new_game_row dflt (userId st)),
       tbl_cells := tbl_cells d @ initial_cells (game_id dflt),
       tbl_cards := tbl_cards d @ stored_cards cid (allCards (game_id dflt))\<rparr>)"
  using assms
  by (simp add: createGame_def createGame_try_def insert_game_def new_game_row_def
      and_then_def initializeBoard_def initializeCards_def insert_cells_def insert_cards_def
      subscribeToGame_def catch_finally_def catch_error_def Let_def)

subsection \<open>The grid\<close>

lemma initial_cells_length: "length (initial_cells gid) = 81"
  by (simp add: initial_cells_def grid_cells_def upto_rec1)

lemma initial_cells_coords:
  "map (\<lambda>c. (cell_x c, cell_y c)) (initial_cells gid) =
     concat (map (\<lambda>y. map (\<lambda>x. (x, y)) [0..8]) [0..8])"
  by (simp add: initial_cells_def grid_cells_def upto_rec1)

lemma grid_coords_set:
  "set (concat (map (\<lambda>y. map (\<lambda>x. (x, y)) [0..8]) [0..8])) = {0..8} \<times> {0..8::int}"
  by auto

lemma grid_coords_distinct:
  "distinct (concat (map (\<lambda>y. map (\<lambda>x. (x, y)) [0..8::int]) [0..8::int]))"
  by (simp add: upto_rec1)

lemma initial_cells_distinct: "distinct (map (\<lambda>c. (cell_x c, cell_y c)) (initial_cells gid))"
  unfolding initial_cells_coords by (rule grid_coords_distinct)

lemma initial_cells_cover:
  "set (map (\<lambda>c. (cell_x c, cell_y c)) (initial_cells gid)) = {0..8} \<times> {0..8}"
  unfolding initial_cells_coords by (rule grid_coords_set)

lemma initial_cells_owned:
  "filter (\<lambda>c. cell_owner c \<noteq> SideNone) (initial_cells gid) =
     [\<lparr>cell_game_id = gid, cell_x = 4, cell_y = 4, cell_owner = SideA\<rparr>]"
  by (simp add: initial_cells_def grid_cells_def upto_rec1)

lemma initial_cells_session:
  "filter (\<lambda>c. cell_game_id c \<noteq> gid) (initial_cells gid) = []"
  by (simp add: initial_cells_def grid_cells_def upto_rec1)

subsection \<open>The decks\<close>

lemmas deck_defs =
  stored_cards_def allCards_def deck_of_def cardsToCreate_def new_card.extend_def
  card.fields_def

lemma deck_length: "length (stored_cards cid (allCards gid)) = 20"
  by (simp add: deck_defs)

lemma deck_unused: "filter is_used (stored_cards cid (allCards gid)) = []"
  by (simp add: deck_defs)

lemma deck_A:
  "map card_face (filter (\<lambda>c. card_owner c = Some SeatA \<and> \<not> is_used c)
      (stored_cards cid (allCards gid))) =
   map (\<lambda>(i, (k, dx, dy, n)). (k, Some dx, Some dy, Some n, Some (int i)))
     (enumerate 0 cardsToCreate)"
  by (simp add: deck_defs card_face_def)

lemma deck_B:
  "map card_face (filter (\<lambda>c. card_owner c = Some SeatB \<and> \<not> is_used c)
      (stored_cards cid (allCards gid))) =
   map (\<lambda>(i, (k, dx, dy, n)). (k, Some dx, Some dy, Some n, Some (int i)))
     (enumerate 0 cardsToCreate)"
  by (simp add: deck_defs card_face_def)

lemma deck_A_length:
  "length (filter (\<lambda>c. card_owner c = Some SeatA \<and> \<not> is_used c)
      (stored_cards cid (allCards gid))) = 10"
  by (simp add: deck_defs)

lemma deck_B_length:
  "length (filter (\<lambda>c. card_owner c = Some SeatB \<and> \<not> is_used c)
      (stored_cards cid (allCards gid))) = 10"
  by (simp add: deck_defs)

text \<open>
  C6. On a reachable backend that has no session under the new identifier, \<open>createGame\<close>
  succeeds; the rows it adds to \<open>cells\<close> and \<open>cards\<close> are the ones it keeps in the store;
  the board has 81 cells, all of the new session, whose coordinates are pairwise different
  and are exactly the pairs of \<open>[0,8] \<times> [0,8]\<close>; the only cell with an owner is the
  centre \<open>(4,4)\<close>, owned by A; there are 20 cards, 10 in each player's hand, the two hands
  agree card by card in kind, direction, steps and position, and no card is used.
\<close>

theorem createGame_initial_position:
  assumes "online d" and "tbl_games d (game_id dflt) = None"
  shows "let (r, st', d') = createGame dflt cid (st, d);
             coords = map (\<lambda>c. (cell_x c, cell_y c)) (board st')
         in r = Inr (new_game_row dflt (userId st)) \<and>
            tbl_cells d' = tbl_cells d @ board st' \<and>
            tbl_cards d' = tbl_cards d @ cards st' \<and>
            length (board st') = 81 \<and>
            filter (\<lambda>c. cell_game_id c \<noteq> game_id dflt) (board st') = [] \<and>
            distinct coords \<and> set coords = {0..8} \<times> {0..8} \<and>
            filter (\<lambda>c. cell_owner c \<noteq> SideNone) (board st') =
              [\<lparr>cell_game_id = game_id dflt, cell_x = 4, cell_y = 4, cell_owner = SideA\<rparr>] \<and>
            length (cards st') = 20 \<and>
            length (getPlayerCards st' SeatA) = 10 \<and>
            length (getPlayerCards st' SeatB) = 10 \<and>
            map card_face (getPlayerCards st' SeatA) = map card_face (getPlayerCards st' SeatB) \<and>
            filter is_used (cards st') = []"
proof -
  obtain r st' d' where out: "createGame dflt cid (st, d) = (r, st', d')"
    by (cases "createGame dflt cid (st, d)")
  from out have r: "r = Inr (new_game_row dflt (userId st))"
    and b: "board st' = initial_cells (game_id dflt)"
    and c: "cards st' = stored_cards cid (allCards (game_id dflt))"
    and tc: "tbl_cells d' = tbl_cells d @ initial_cells (game_id dflt)"
    and tk: "tbl_cards d' = tbl_cards d @ stored_cards cid (allCards (game_id dflt))"
    unfolding createGame_ok [OF assms] by auto
  have faces: "map card_face (filter (\<lambda>c. card_owner c = Some SeatA \<and> \<not> is_used c)
        (stored_cards cid (allCards (game_id dflt)))) =
      map card_face (filter (\<lambda>c. card_owner c = Some SeatB \<and> \<not> is_used c)
        (stored_cards cid (allCards (game_id dflt))))"
    by (simp only: deck_A deck_B)
  show ?thesis
    unfolding out Let_def prod.case getPlayerCards_def r b c tc tk
    by (intro conjI refl initial_cells_length initial_cells_session initial_cells_distinct
        initial_cells_cover initial_cells_owned deck_length deck_A_length deck_B_length
        faces deck_unused)
qed

theorem createGame_initial_position_witness:
  "online empty_db \<and> tbl_games empty_db (game_id demo_row) = None \<and>
   (let (r, st', d') = createGame demo_row demo_cid (blank_store (Some ''alice''), empty_db);
        coords = map (\<lambda>c. (cell_x c, cell_y c)) (board st')
    in r = Inr (new_game_row demo_row (userId (blank_store (Some ''alice'')))) \<and>
       tbl_cells d' = tbl_cells empty_db @ board st' \<and>
       tbl_cards d' = tbl_cards empty_db @ cards st' \<and>
       length (board st') = 81 \<and>
       filter (\<lambda>c. cell_game_id c \<noteq> game_id demo_row) (board st') = [] \<and>
       distinct coords \<and> set coords = {0..8} \<times> {0..8} \<and>
       filter (\<lambda>c. cell_owner c \<noteq> SideNone) (board st') =
         [\<lparr>cell_game_id = game_id demo_row, cell_x = 4, cell_y = 4, cell_owner = SideA\<rparr>] \<and>
       length (cards st') = 20 \<and>
       length (getPlayerCards st' SeatA) = 10 \<and>
       length (getPlayerCards st' SeatB) = 10 \<and>
       map card_face (getPlayerCards st' SeatA) = map card_face (getPlayerCards st' SeatB) \<and>
       filter is_used (cards st') = [])"
proof -
  have h1: "online empty_db" by (simp add: empty_db_def)
  have h2: "tbl_games empty_db (game_id demo_row) = None" by (simp add: empty_db_def)
  show ?thesis
    using h1 h2 createGame_initial_position [OF h1 h2, of demo_cid "blank_store (Some ''alice'')"]
    by blast
qed

text \<open>
  C3. A caller with no identity is not turned away: on the empty backend \<open>createGame\<close>
  succeeds, stores a session whose seat A is null, and creates its 81 cells and 20 cards.
  \<open>joinGame\<close> and \<open>forfeitGame\<close> both refuse such a caller before they do anything.
\<close>

theorem createGame_absent_identity:
  "fst (createGame demo_row demo_cid (blank_store None, empty_db)) =
     Inr (new_game_row demo_row None) \<and>
   player_a (new_game_row demo_row None) = None \<and>
   tbl_games (snd (snd (createGame demo_row demo_cid (blank_store None, empty_db)))) ''g1'' =
     Some (new_game_row demo_row None) \<and>
   length (tbl_cells (snd (snd (createGame demo_row demo_cid (blank_store None, empty_db))))) = 81 \<and>
   length (tbl_cards (snd (snd (createGame demo_row demo_cid (blank_store None, empty_db))))) = 20"
proof -
  have h1: "online empty_db" by (simp add: empty_db_def)
  have h2: "tbl_games empty_db (game_id demo_row) = None" by (simp add: empty_db_def)
  have u: "userId (blank_store None) = None" by (simp add: blank_store_def)
  have g: "game_id demo_row = ''g1''" by (simp add: demo_row_def)
  show ?thesis
    unfolding createGame_ok [OF h1 h2] u g
    by (simp add: new_game_row_def empty_db_def initial_cells_length deck_length)
qed

section \<open>Joining a session\<close>

lemma joinGame_read_ok:
  assumes "truthy (userId st)" and "online d" and "tbl_games d gid = Some g"
  shows "joinGame_read gid (st, d) =
     (if truthy (player_a g) \<and> truthy (player_b g) then Inl game_full else Inr g,
      st\<lparr>isLoading := True, error := None\<rparr>, d)"
  using assms by (simp add: joinGame_read_def select_game_def Let_def)

lemma joinGame_write_ok:
  assumes "online d" and "tbl_games d gid = Some g"
  shows "fst (joinGame_write now gid (st, d)) = Inr (join_update (userId st) now g) \<and>
         currentGame (fst (snd (joinGame_write now gid (st, d)))) =
           Some (join_update (userId st) now g) \<and>
         snd (snd (joinGame_write now gid (st, d))) =
           d\<lparr>tbl_games := (tbl_games d)(gid \<mapsto> join_update (userId st) now g)\<rparr>"
  using assms
  by (simp add: joinGame_write_def update_game_single_def and_then_def fetchBoard_def
      fetchCards_def fetchMoves_def fetchPlayers_def select_cells_def select_cards_def
      select_moves_def select_profiles_def subscribeToGame_def)

lemma joinGame_full:
  assumes "truthy (userId st)" and "online d" and "tbl_games d gid = Some g"
    and "truthy (player_a g) \<and> truthy (player_b g)"
  shows "joinGame now gid (st, d) =
    (Inl game_full, st\<lparr>isLoading := False, error := Some game_full\<rparr>, d)"
  using assms
  by (simp add: joinGame_def joinGame_read_ok and_then_def catch_finally_def catch_error_def)

lemma joinGame_open:
  assumes "truthy (userId st)" and "online d" and "tbl_games d gid = Some g"
    and "\<not> (truthy (player_a g) \<and> truthy (player_b g))"
  shows "fst (joinGame now gid (st, d)) = Inr (join_update (userId st) now g)"
    and "currentGame (fst (snd (joinGame now gid (st, d)))) = Some (join_update (userId st) now g)"
    and "snd (snd (joinGame now gid (st, d))) =
           d\<lparr>tbl_games := (tbl_games d)(gid \<mapsto> join_update (userId st) now g)\<rparr>"
proof -
  let ?st1 = "st\<lparr>isLoading := True, error := None\<rparr>"
  have rd: "joinGame_read gid (st, d) = (Inr g, ?st1, d)"
    using assms by (simp add: joinGame_read_ok)
  have j: "joinGame now gid (st, d) = catch_finally (joinGame_write now gid (?st1, d))"
    by (simp add: joinGame_def rd and_then_def)
  note w = joinGame_write_ok [OF assms(2,3), of now ?st1]
  obtain r st' d' where out: "joinGame_write now gid (?st1, d) = (r, st', d')"
    by (cases "joinGame_write now gid (?st1, d)")
  from w out have r: "r = Inr (join_update (userId st) now g)"
    and c: "currentGame st' = Some (join_update (userId st) now g)"
    and dd: "d' = d\<lparr>tbl_games := (tbl_games d)(gid \<mapsto> join_update (userId st) now g)\<rparr>"
    by simp_all
  show "fst (joinGame now gid (st, d)) = Inr (join_update (userId st) now g)"
    by (simp add: j out r catch_finally_def catch_error_def)
  show "currentGame (fst (snd (joinGame now gid (st, d)))) = Some (join_update (userId st) now g)"
    by (simp add: j out r c catch_finally_def catch_error_def)
  show "snd (snd (joinGame now gid (st, d))) =
           d\<lparr>tbl_games := (tbl_games d)(gid \<mapsto> join_update (userId st) now g)\<rparr>"
    by (simp add: j out r dd catch_finally_def catch_error_def)
qed

text \<open>
  C4. For a caller with an identity, a reachable backend and a session it holds:
  when both seats are filled \<open>joinGame\<close> throws \<open>This game is already full\<close> (the spec's
  ConflictError) and neither the backend nor the cached session changes; otherwise it
  returns the updated row, which is also the stored row and the cached session, with the
  caller in seat B, status \<open>playing\<close>, and the turn, the crown and seat A as before.
\<close>

theorem joinGame_seats:
  assumes "truthy (userId st)" and "online d" and "tbl_games d gid = Some g"
  shows "let (r, st', d') = joinGame now gid (st, d)
         in if truthy (player_a g) \<and> truthy (player_b g)
            then r = Inl game_full \<and> d' = d \<and> currentGame st' = currentGame st
            else (case r of
                    Inl e \<Rightarrow> False
                  | Inr g' \<Rightarrow>
                      player_b g' = userId st \<and> status g' = playing \<and>
                      turn g' = turn g \<and> crown_x g' = crown_x g \<and> crown_y g' = crown_y g \<and>
                      player_a g' = player_a g \<and>
                      tbl_games d' gid = Some g' \<and> currentGame st' = Some g')"
proof (cases "truthy (player_a g) \<and> truthy (player_b g)")
  case True
  then show ?thesis by (simp add: joinGame_full [OF assms True])
next
  case False
  obtain r st' d' where out: "joinGame now gid (st, d) = (r, st', d')"
    by (cases "joinGame now gid (st, d)")
  from joinGame_open [OF assms False, of now] out
  have "r = Inr (join_update (userId st) now g)"
    and "currentGame st' = Some (join_update (userId st) now g)"
    and "d' = d\<lparr>tbl_games := (tbl_games d)(gid \<mapsto> join_update (userId st) now g)\<rparr>"
    by simp_all
  with False show ?thesis by (simp add: out join_update_def)
qed

theorem joinGame_seats_witness:
  "truthy (userId (blank_store (Some ''bob''))) \<and> online waiting_db \<and>
   tbl_games waiting_db ''g1'' = Some waiting_game \<and>
   (let (r, st', d') = joinGame ''t1'' ''g1'' (blank_store (Some ''bob''), waiting_db)
    in if truthy (player_a waiting_game) \<and> truthy (player_b waiting_game)
       then r = Inl game_full \<and> d' = waiting_db \<and>
            currentGame st' = currentGame (blank_store (Some ''bob''))
       else (case r of
               Inl e \<Rightarrow> False
             | Inr g' \<Rightarrow>
                 player_b g' = userId (blank_store (Some ''bob'')) \<and> status g' = playing \<and>
                 turn g' = turn waiting_game \<and> crown_x g' = crown_x waiting_game \<and>
                 crown_y g' = crown_y waiting_game \<and> player_a g' = player_a waiting_game \<and>
                 tbl_games d' ''g1'' = Some g' \<and> currentGame st' = Some g'))"
proof -
  have h1: "truthy (userId (blank_store (Some ''bob'')))"
    by (simp add: blank_store_def truthy_def)
  have h2: "online waiting_db" by (simp add: waiting_db_def empty_db_def)
  have h3: "tbl_games waiting_db ''g1'' = Some waiting_game"
    by (simp add: waiting_db_def empty_db_def)
  show ?thesis
    using h1 h2 h3 joinGame_seats [OF h1 h2 h3, of "''t1''"] by blast
qed

text \<open>One call after the other: the second joiner of an open seat is turned away.\<close>

lemma joinGame_sequential:
  assumes "truthy (userId s1)" and "truthy (userId s2)" and "online d"
    and "tbl_games d gid = Some g" and "truthy (player_a g)" and "\<not> truthy (player_b g)"
  shows "fst (joinGame now2 gid (s2, snd (snd (joinGame now1 gid (s1, d))))) = Inl game_full"
proof -
  let ?g' = "join_update (userId s1) now1 g"
  let ?d' = "d\<lparr>tbl_games := (tbl_games d)(gid \<mapsto> ?g')\<rparr>"
  have open_seat: "\<not> (truthy (player_a g) \<and> truthy (player_b g))" using assms(6) by simp
  have d': "snd (snd (joinGame now1 gid (s1, d))) = ?d'"
    by (rule joinGame_open(3) [OF assms(1,3,4) open_seat])
  have "online ?d'" and "tbl_games ?d' gid = Some ?g'" using assms(3) by simp_all
  moreover have "truthy (player_a ?g') \<and> truthy (player_b ?g')"
    using assms(1,5) by (simp add: join_update_def)
  ultimately show ?thesis
    unfolding d' using assms(2) by (simp add: joinGame_full)
qed

text \<open>
  C1. When the backend answers the reads of both joiners before either write arrives,
  both calls pass the test for a full session and both writes are unconditional: bob's
  call and carol's call both return a session, bob's store holds a session with bob in
  seat B, and the backend and carol's store hold carol there. Nobody is told of a
  conflict and bob's seat is lost.
\<close>

theorem joinGame_race_double_seating:
  "fst race_outcome = Inr (join_update (Some ''bob'') ''t1'' waiting_game) \<and>
   fst (snd race_outcome) =
     Inr (join_update (Some ''carol'') ''t2'' (join_update (Some ''bob'') ''t1'' waiting_game)) \<and>
   map_option player_b (currentGame (fst (snd (snd race_outcome)))) = Some (Some ''bob'') \<and>
   map_option player_b (currentGame (fst (snd (snd (snd race_outcome))))) = Some (Some ''carol'') \<and>
   map_option player_b (tbl_games (snd (snd (snd (snd race_outcome)))) ''g1'') = Some (Some ''carol'')"
  by (simp add: race_outcome_def joinGame_race_def joinGame_read_def select_game_def
      waiting_db_def empty_db_def blank_store_def truthy_def waiting_game_def new_game_row_def
      demo_row_def Let_def and_then_def catch_finally_def catch_error_def
      joinGame_write_def update_game_single_def fetchBoard_def
      fetchCards_def fetchMoves_def fetchPlayers_def select_cells_def select_cards_def
      select_moves_def select_profiles_def subscribeToGame_def join_update_def)

section \<open>Submitting a move\<close>

lemma makeMove_not_turn:
  assumes "\<not> isPlayerTurn st"
  shows "makeMove pt cid x y (st, d) =
    (Inl not_your_turn, st\<lparr>error := Some not_your_turn, isLoading := False\<rparr>, d)"
  using assms
  by (simp add: makeMove_def catch_finally_def catch_error_def split: option.splits)

text \<open>
  C5. When it is not the caller's turn (also when no session is loaded or the caller has
  no identity), \<open>makeMove\<close> throws \<open>It's not your turn\<close> (the spec's TurnError); the
  backend is not called and is unchanged, and the cached session, board, cards and moves
  are unchanged. Only the store's error and loading flag are written.
\<close>

theorem makeMove_out_of_turn:
  assumes "\<not> isPlayerTurn st"
  shows "let (r, st', d') = makeMove pt cid x y (st, d)
         in r = Inl not_your_turn \<and> d' = d \<and> currentGame st' = currentGame st \<and>
            board st' = board st \<and> cards st' = cards st \<and> moves st' = moves st \<and>
            submitted st' = submitted st"
  by (simp add: makeMove_not_turn [OF assms])

theorem makeMove_out_of_turn_witness:
  "\<not> isPlayerTurn (seated_store ''bob'') \<and>
   (let (r, st', d') = makeMove accept_turn ''c'' 3 4 (seated_store ''bob'', playing_db)
    in r = Inl not_your_turn \<and> d' = playing_db \<and>
       currentGame st' = currentGame (seated_store ''bob'') \<and>
       board st' = board (seated_store ''bob'') \<and> cards st' = cards (seated_store ''bob'') \<and>
       moves st' = moves (seated_store ''bob'') \<and>
       submitted st' = submitted (seated_store ''bob''))"
proof -
  have h: "\<not> isPlayerTurn (seated_store ''bob'')"
    by (simp add: isPlayerTurn_def isPlayerA_def isPlayerB_def seated_store_def blank_store_def
        playing_game_def waiting_game_def join_update_def new_game_row_def truthy_def)
  show ?thesis
    using h makeMove_out_of_turn [OF h, of accept_turn "''c''" 3 4 playing_db] by blast
qed

section \<open>Forfeiting\<close>

lemmas sample_defs =
  seated_store_def blank_store_def playing_db_def empty_db_def playing_game_def
  waiting_game_def join_update_def new_game_row_def demo_row_def truthy_def

lemmas forfeit_defs =
  forfeitGame_def catch_error_def update_game_def forfeit_update_def isPlayerA_def Let_def

text \<open>
  What a call does: with a cached session, an identity and a reachable backend holding
  the session's row, \<open>forfeitGame\<close> writes the row whatever its status is.
\<close>

lemma forfeitGame_ok:
  assumes "online d" and "currentGame st = Some c" and "truthy (userId st)"
    and "tbl_games d (game_id c) = Some g"
  shows "forfeitGame now1 now2 (st, d) =
    (Inr (), st,
     d\<lparr>tbl_games := (tbl_games d)(game_id c \<mapsto>
         g\<lparr>status := finished,
           winner := Some (if player_a c = userId st then SeatB else SeatA),
           finished_at := Some now1, updated_at := Some now2\<rparr>)\<rparr>)"
  using assms by (simp add: forfeit_defs)

text \<open>
  C2. The first call does what the claim says: alice, in seat A, forfeits the playing
  session, and the stored row is finished with winner B and finish time \<open>t2\<close>. The later
  calls do not. The store's action has no test of the status: called again once alice's
  store holds the finished session, it succeeds and moves the finish time to \<open>t3\<close>. The
  page tests the status of the cached session before it lets a player forfeit, and
  disables the button on alice's page; bob's store still holds the playing session, so
  his button is enabled, his forfeit is written without an error, and the recorded
  winner turns from B to A.
\<close>

theorem forfeitGame_repeated_call:
  "fst forfeit_once = Inr () \<and>
   map_option status (tbl_games (snd (snd forfeit_once)) ''g1'') = Some finished \<and>
   map_option winner (tbl_games (snd (snd forfeit_once)) ''g1'') = Some (Some SeatB) \<and>
   map_option finished_at (tbl_games (snd (snd forfeit_once)) ''g1'') = Some (Some ''t2'') \<and>
   gameStatus (fst forfeit_seen) = finished \<and>
   forfeit_enabled (fst forfeit_seen) = False \<and>
   fst forfeit_again = Inr () \<and>
   map_option finished_at (tbl_games (snd (snd forfeit_again)) ''g1'') = Some (Some ''t3'') \<and>
   gameStatus (seated_store ''bob'') = playing \<and>
   forfeit_enabled (seated_store ''bob'') = True \<and>
   error (fst forfeit_other) = None \<and>
   map_option status (tbl_games (snd forfeit_other) ''g1'') = Some finished \<and>
   map_option winner (tbl_games (snd forfeit_other) ''g1'') = Some (Some SeatA) \<and>
   map_option finished_at (tbl_games (snd forfeit_other) ''g1'') = Some (Some ''t3'')"
  by (simp add: forfeit_once_def forfeit_seen_def forfeit_again_def forfeit_other_def
      press_forfeit_def GamePage_handleForfeit_def forfeit_enabled_def gameStatus_def
      isPlayer_def isPlayerB_def forfeit_defs sample_defs)

section \<open>Change events\<close>

text \<open>
  C7, as the code has it. An insert or update event of the session row replaces the
  cached session by the row of the payload, whole; a delete event of the session row
  leaves the cache as it is. Any event of a cell, or of a card, reads nothing of its
  payload: the board becomes all cells of the session the backend holds, the hand all its
  cards in deck order (and stays as it is when the backend cannot be reached).
\<close>

theorem on_change_reconciles:
  "on_change gid (GamesChange p) (st, d) =
     (if eventType p = DELETE then st else st\<lparr>currentGame := Some (new p)\<rparr>, d) \<and>
   on_change gid (CellsChange q) (st, d) =
     (if online d then st\<lparr>board := filter (\<lambda>c. cell_game_id c = gid) (tbl_cells d)\<rparr>
      else st, d) \<and>
   on_change gid (CardsChange q') (st, d) =
     (if online d
      then st\<lparr>cards := sort_key deck_key (filter (\<lambda>c. card_game_id c = gid) (tbl_cards d))\<rparr>
      else st, d)"
  by (cases "eventType p")
     (simp_all add: fetchBoard_def fetchCards_def select_cells_def select_cards_def)

text \<open>A delete event of the session row: the cache keeps the session it had.\<close>

theorem on_change_delete_counterexample:
  "currentGame (seated_store ''alice'') = Some playing_game \<and>
   currentGame (fst (on_change ''g1'' deleted_event (seated_store ''alice'', playing_db))) =
     Some playing_game \<and>
   playing_game \<noteq> waiting_game"
  by (simp add: deleted_event_def seated_store_def playing_game_def join_update_def
      waiting_game_def new_game_row_def demo_row_def)

section \<open>The board: keys and clicks\<close>

lemma alice_turn: "isPlayerTurn (seated_store ''alice'')"
  by (simp add: isPlayerTurn_def isPlayerA_def sample_defs)

lemma seated_fields:
  "currentGame (seated_store u) = Some playing_game" "board (seated_store u) = []"
  "submitted (seated_store u) = []"
  by (simp_all add: seated_store_def blank_store_def)

lemma card_client_eq:
  "card_client = \<lparr>store = seated_store ''alice'', ui = idle_board\<lparr>interactive := True\<rparr>,
                   page = \<lparr>selectedCardId = Some ''c1''\<rparr>\<rparr>"
  by (simp add: card_client_def pass_props_def page_interactive_def isPlayer_def
      GamePage_selectCard_def alice_client_def isPlayerTurn_def isPlayerA_def sample_defs)

lemma card_client_fields:
  "store card_client = seated_store ''alice''"
  "page card_client = \<lparr>selectedCardId = Some ''c1''\<rparr>"
  "ui card_client = idle_board\<lparr>interactive := True\<rparr>"
  by (simp_all add: card_client_eq)

lemma dragging_client_fields:
  "store dragging_client = seated_store ''alice''"
  "page dragging_client = \<lparr>selectedCardId = Some ''c1''\<rparr>"
  "ui dragging_client =
     idle_board\<lparr>interactive := True, isDragging := True, dragStartCell := Some (1, 1),
       validMoves := [(0, 0), (1, 0), (2, 0), (0, 1), (2, 1), (0, 2), (1, 2), (2, 2)]\<rparr>"
  by (simp_all add: dragging_client_def handleMouseDown_def isInteractive_def card_client_fields
      alice_turn updateValidMoves_def directions_def seated_fields getCell_def idle_board_def)

lemma disabled_client_fields:
  "store disabled_client = seated_store ''alice''"
  "page disabled_client = \<lparr>selectedCardId = None\<rparr>"
  "ui disabled_client =
     idle_board\<lparr>interactive := False, isDragging := True, dragStartCell := Some (1, 1),
       validMoves := [(0, 0), (1, 0), (2, 0), (0, 1), (2, 1), (0, 2), (1, 2), (2, 2)]\<rparr>"
  by (simp_all add: disabled_client_def pass_props_def page_interactive_def
      GamePage_selectCard_def dragging_client_fields truthy_def idle_board_def)

subsection \<open>Escape\<close>

text \<open>
  C8, as the code has it. The key handler returns at once unless the board is
  interactive (the prop is true and it is the viewer's turn). On an interactive board
  Escape clears the board's dragging flag, drag origin, drag target and highlight set
  and sets the board's own \<open>selectedCard\<close> to null, whatever the state was; on a board
  that is not interactive Escape changes nothing.
\<close>

theorem escape_resets:
  "handleKeyDown onCellClick pt Escape (c, d) =
     (if isInteractive c
      then c\<lparr>ui := (ui c)\<lparr>isDragging := False, dragStartCell := None, dragEndCell := None,
                            validMoves := [], selectedCard := None\<rparr>\<rparr>
      else c, d)"
  by (simp add: handleKeyDown_def is_arrow_def resetDragState_def split: option.splits)

text \<open>
  Two runs against the claim as it was written. A drag is begun on the interactive
  board and the page's card is then deselected, so that the page passes
  \<open>interactive = false\<close>: the dragging flag, the drag origin and the highlight set survive
  Escape. And on the interactive board with the card \<open>c1\<close> selected on the page, Escape
  leaves that card selected: it is still the card in hand, and the next click on a cell
  submits it.
\<close>

theorem escape_counterexample:
  "interactive (ui disabled_client) = page_interactive disabled_client \<and>
   isDragging (ui disabled_client) \<and> dragStartCell (ui disabled_client) = Some (1, 1) \<and>
   validMoves (ui disabled_client) \<noteq> [] \<and>
   fst (board_key accept_turn Escape (disabled_client, playing_db)) = disabled_client \<and>
   isInteractive card_client \<and>
   selectedCardId (page card_client) = Some ''c1'' \<and>
   selectedCardId (page (fst (board_key accept_turn Escape (card_client, playing_db)))) =
     Some ''c1'' \<and>
   hand_card (fst (board_key accept_turn Escape (card_client, playing_db))) = Some ''c1'' \<and>
   submitted (store (fst (board_click accept_turn 7 2
       (board_key accept_turn Escape (card_client, playing_db))))) =
     [\<lparr>gameId = ''g1'', cardId = ''c1'', toX = 7, toY = 2\<rparr>]"
proof -
  have off: "interactive (ui disabled_client) = page_interactive disabled_client \<and>
      isDragging (ui disabled_client) \<and> dragStartCell (ui disabled_client) = Some (1, 1) \<and>
      validMoves (ui disabled_client) \<noteq> [] \<and>
      fst (board_key accept_turn Escape (disabled_client, playing_db)) = disabled_client"
    by (simp add: disabled_client_fields board_key_def handleKeyDown_def isInteractive_def
        page_interactive_def truthy_def idle_board_def)
  have on: "isInteractive card_client"
    by (simp add: isInteractive_def card_client_fields alice_turn)
  have esc: "board_key accept_turn Escape (card_client, playing_db) = (card_client, playing_db)"
    using on
    by (simp add: board_key_def handleKeyDown_def is_arrow_def resetDragState_def
        card_client_eq idle_board_def)
  have pg: "selectedCardId (page card_client) = Some ''c1''"
    by (simp add: card_client_fields)
  have hc: "hand_card card_client = Some ''c1''"
    by (simp add: hand_card_def card_client_fields idle_board_def truthy_def)
  have gid: "game_id playing_game = ''g1''"
    by (simp add: playing_game_def waiting_game_def join_update_def new_game_row_def demo_row_def)
  have click: "submitted (store (fst (board_click accept_turn 7 2 (card_client, playing_db)))) =
      [\<lparr>gameId = ''g1'', cardId = ''c1'', toX = 7, toY = 2\<rparr>]"
    using on alice_turn
    by (simp add: board_click_def handleCellClick_def handleCellClick_emit_def emit_def
        GamePage_handleCellClick_def makeMove_def invoke_play_turn_def accept_turn_def
        catch_finally_def catch_error_def card_client_fields seated_fields idle_board_def
        updateValidMoves_def resetDragState_def gid playing_db_def empty_db_def Let_def)
  show ?thesis
    unfolding esc fst_conv using off on pg hc click by simp
qed

subsection \<open>The cursor\<close>

lemma page_click_ui: "ui (fst (GamePage_handleCellClick pt xy (c, d))) = ui c"
  by (simp add: GamePage_handleCellClick_def split: option.splits prod.splits sum.splits)

lemma playCard_hovered: "hoveredCell (ui (fst (playCard pt cid x y (c, d)))) = hoveredCell (ui c)"
  by (simp add: playCard_def split: option.splits prod.splits sum.splits)

lemma click_hovered:
  "hoveredCell (ui (fst (handleCellClick (GamePage_handleCellClick pt) pt' x y (c, d)))) =
     hoveredCell (ui c)"
proof -
  have e: "hoveredCell (ui (fst (handleCellClick_emit (GamePage_handleCellClick pt) x y (c, d)))) =
      hoveredCell (ui c)"
  proof -
    obtain c1 d1 where l: "GamePage_handleCellClick pt (x, y) (emit (CellClick x y) c, d) = (c1, d1)"
      by (cases "GamePage_handleCellClick pt (x, y) (emit (CellClick x y) c, d)")
    from page_click_ui [of pt "(x, y)" "emit (CellClick x y) c" d] l
    have u: "ui c1 = ui (emit (CellClick x y) c)" by simp
    have "hoveredCell (ui c1) = hoveredCell (ui c)" by (simp add: u emit_def)
    then show ?thesis
      unfolding handleCellClick_emit_def prod.case l
      by (simp add: emit_def resetDragState_def Let_def updateValidMoves_def
          split: option.splits)
  qed
  show ?thesis
    by (simp add: handleCellClick_def e playCard_hovered split: option.splits)
qed

text \<open>What a key does to the cursor: an arrow key on an interactive board moves it, no other key does.\<close>

lemma board_key_hovered:
  "hoveredCell (ui (fst (board_key pt k (c, d)))) =
     (if isInteractive c \<and> is_arrow k
      then (case hoveredCell (ui c) of None \<Rightarrow> Some (4, 4) | Some h \<Rightarrow> Some (arrow_step k h))
      else hoveredCell (ui c))"
proof (cases "isInteractive c")
  case False
  then show ?thesis by (simp add: board_key_def handleKeyDown_def)
next
  case True
  show ?thesis
  proof (cases k)
    case Enter
    with True show ?thesis
      by (simp add: board_key_def handleKeyDown_def is_arrow_def click_hovered
          split: option.splits)
  next
    case Escape
    with True show ?thesis
      by (simp add: board_key_def handleKeyDown_def is_arrow_def resetDragState_def
          split: option.splits)
  qed (use True in \<open>simp_all add: board_key_def handleKeyDown_def is_arrow_def
          split: option.splits\<close>)
qed

text \<open>Inside the grid an arrow key is one step, clamped to \<open>[0,8]\<close>.\<close>

lemma arrow_step_clamped:
  assumes "0 \<le> x" and "x \<le> 8" and "0 \<le> y" and "y \<le> 8"
  shows "arrow_step ArrowUp (x, y) = (x, max 0 (y - 1))"
    and "arrow_step ArrowDown (x, y) = (x, min 8 (y + 1))"
    and "arrow_step ArrowLeft (x, y) = (max 0 (x - 1), y)"
    and "arrow_step ArrowRight (x, y) = (min 8 (x + 1), y)"
  using assms by auto

lemma arrow_step_in_grid:
  assumes "in_grid (Some h)"
  shows "in_grid (Some (arrow_step k h))"
  using assms by (cases h; cases k) (auto simp: in_grid_def)

lemma board_key_in_grid:
  assumes "in_grid (hoveredCell (ui c))"
  shows "in_grid (hoveredCell (ui (fst (board_key pt k (c, d)))))"
proof (cases "hoveredCell (ui c)")
  case None
  then show ?thesis by (simp add: board_key_hovered in_grid_def)
next
  case (Some h)
  with assms arrow_step_in_grid [of h k] show ?thesis by (simp add: board_key_hovered)
qed

text \<open>
  C9. From a cursor that is absent or inside the grid, every run of key presses (arrow
  keys in any number and order, and the other keys too) leaves the cursor absent or
  inside \<open>[0,8] \<times> [0,8]\<close>.
\<close>

theorem press_keys_in_grid:
  assumes "in_grid (hoveredCell (ui c))"
  shows "in_grid (hoveredCell (ui (fst (press_keys pt ks (c, d)))))"
  using assms
proof (induction ks arbitrary: c d)
  case Nil
  then show ?case by simp
next
  case (Cons k ks)
  obtain c' d' where step: "board_key pt k (c, d) = (c', d')"
    by (cases "board_key pt k (c, d)")
  from board_key_in_grid [OF Cons.prems, of pt k d] step
  have "in_grid (hoveredCell (ui c'))" by simp
  from Cons.IH [OF this] show ?case by (simp add: step)
qed

theorem press_keys_in_grid_witness:
  "in_grid (hoveredCell (ui card_client)) \<and>
   in_grid (hoveredCell (ui (fst (press_keys accept_turn
     [ArrowRight, ArrowRight, ArrowRight, ArrowRight, ArrowRight, ArrowRight, ArrowUp]
     (card_client, playing_db)))))"
proof -
  have h: "in_grid (hoveredCell (ui card_client))"
    by (simp add: card_client_fields idle_board_def in_grid_def)
  show ?thesis
    using h press_keys_in_grid [OF h] by blast
qed

text \<open>The run of the witness: from no cursor to the centre, to the right edge and one up.\<close>

lemma press_keys_right_edge:
  "hoveredCell (ui (fst (press_keys accept_turn
     [ArrowRight, ArrowRight, ArrowRight, ArrowRight, ArrowRight, ArrowRight, ArrowUp]
     (card_client, playing_db)))) = Some (8, 3)"
  unfolding card_client_eq
  by (simp add: board_key_def handleKeyDown_def isInteractive_def is_arrow_def alice_turn
      idle_board_def)

subsection \<open>Clicking with a card in hand\<close>







end
